theory Spec2Isabelle
  imports Main
begin

section \<open>The Kite installer dialog\<close>

text \<open>
  A model of \<^verbatim>\<open>spyder/plugins/completion/kite/widgets/install.py\<close>: the dialog
  \<^verbatim>\<open>KiteInstallerDialog\<close> with its three screens (\<^verbatim>\<open>KiteIntegrationInfo\<close>,
  \<^verbatim>\<open>KiteWelcome\<close>, \<^verbatim>\<open>KiteInstallation\<close>), the installation thread it is given, and
  the configuration store \<^verbatim>\<open>CONF\<close>. Every method takes the state and returns the new one.
  What the dialog asks of its collaborators (the thread's methods, message boxes, the
  methods of \<^verbatim>\<open>QDialog\<close>) is appended to a trace, in the order of the source.
\<close>

subsection \<open>Imported names\<close>

text \<open>
  The module imports the four status constants from
  \<^verbatim>\<open>spyder.plugins.completion.kite.utils.install\<close> and the translation function \<^verbatim>\<open>_\<close> from
  \<^verbatim>\<open>spyder.config.base\<close>. Their values are not part of this file, so they are parameters
  of the model.
\<close>

record module_env =
  gettext :: "string \<Rightarrow> string"
  ERRORED :: string
  INSTALLING :: string
  FINISHED :: string
  CANCELLED :: string

subsection \<open>The collaborators\<close>

text \<open>
  The installation thread as this module sees it: the attribute \<^verbatim>\<open>status\<close>, which the
  module reads, and the attribute \<^verbatim>\<open>cancelled\<close>, which it assigns. The record holds the
  attributes as this module leaves them; what the thread's own methods do is the thread's
  business and a call of one is recorded in the trace.
\<close>

record installation_thread =
  status :: string
  cancelled :: bool

datatype conf_value = BoolV bool | IntV int | StrV string

type_synonym conf = "string \<times> string \<rightharpoonup> conf_value"

datatype standard_button = Ok | Yes | No | NoButton

text \<open>
  A message box built field by field (\<^verbatim>\<open>setText\<close>, \<^verbatim>\<open>setWindowTitle\<close>, \<^verbatim>\<open>addButton\<close>).
  An added button is its label and the URL that a click on it opens.
\<close>

record message_box =
  box_text :: string
  box_title :: string
  box_buttons :: "(string \<times> string) list"

datatype dialog_code = Rejected | Accepted

text \<open>
  The calls the dialog makes. \<open>Thread_wait\<close> is \<^verbatim>\<open>QThread.wait()\<close>, which blocks until
  the thread has finished; no method of the dialog calls it, and it is listed so that
  this can be said of a trace.
\<close>

datatype effect =
    Thread_install
  | Thread_isRunning
  | Thread_set_cancelled bool
  | Thread_quit
  | Thread_wait
  | Conf_set string string conf_value
  | MessageBox_critical string string standard_button standard_button
  | MessageBox_exec message_box
  | Dialog_accept
  | Dialog_hide
  | Dialog_reject
  | Dialog_adjustSize
  | Dialog_center

subsection \<open>The progress bar\<close>

text \<open>
  \<^verbatim>\<open>QProgressBar\<close>, with the behaviour Qt documents: a new bar has the range 0 to 100
  and no value (one below the minimum); \<^verbatim>\<open>setRange\<close> keeps the range valid and resets a
  value that falls outside it; \<^verbatim>\<open>setValue\<close> ignores a value outside the range, unless
  the range is (0, 0). Qt holds the three numbers as C integers; here they are
  integers without a bound, and no property below depends on their size.
\<close>

record qprogressbar =
  minimum :: int
  maximum :: int
  bar_value :: int

definition QProgressBar :: qprogressbar where
  "QProgressBar = \<lparr>minimum = 0, maximum = 100, bar_value = - 1\<rparr>"

definition reset :: "qprogressbar \<Rightarrow> qprogressbar" where
  "reset b = b\<lparr>bar_value := minimum b - 1\<rparr>"

definition setRange :: "int \<Rightarrow> int \<Rightarrow> qprogressbar \<Rightarrow> qprogressbar" where
  "setRange lo hi b =
     (if lo = minimum b \<and> hi = maximum b then b
      else let b' = b\<lparr>minimum := lo, maximum := max lo hi\<rparr>
           in if bar_value b' < minimum b' - 1 \<or> maximum b' < bar_value b'
              then reset b' else b')"

definition setMaximum :: "int \<Rightarrow> qprogressbar \<Rightarrow> qprogressbar" where
  "setMaximum hi b = setRange (min (minimum b) hi) hi b"

definition setValue :: "int \<Rightarrow> qprogressbar \<Rightarrow> qprogressbar" where
  "setValue v b =
     (if bar_value b = v then b
      else if (maximum b < v \<or> v < minimum b) \<and> \<not> (maximum b = 0 \<and> minimum b = 0) then b
      else b\<lparr>bar_value := v\<rparr>)"

subsection \<open>The installation screen\<close>

text \<open>Class \<^verbatim>\<open>KiteInstallation\<close>: the progress bar and the label above it.\<close>

record kite_installation =
  progress_bar :: qprogressbar
  progress_label :: string

definition KiteInstallation :: "module_env \<Rightarrow> kite_installation" where
  "KiteInstallation I =
     \<lparr>progress_bar = QProgressBar, progress_label = gettext I ''Downloading''\<rparr>"

definition update_installation_status ::
  "module_env \<Rightarrow> string \<Rightarrow> kite_installation \<Rightarrow> kite_installation" where
  "update_installation_status I st w =
     (let w1 = w\<lparr>progress_label := st\<rparr>
      in if st = INSTALLING I
         then w1\<lparr>progress_bar := setRange 0 0 (progress_bar w1)\<rparr>
         else w1)"

definition update_installation_progress ::
  "int \<Rightarrow> int \<Rightarrow> kite_installation \<Rightarrow> kite_installation" where
  "update_installation_progress current_value tot w =
     w\<lparr>progress_bar := setValue current_value (setMaximum tot (progress_bar w))\<rparr>"

subsection \<open>The dialog\<close>

text \<open>
  Class \<^verbatim>\<open>KiteInstallerDialog\<close>. Each of the three screens carries the flag that
  \<^verbatim>\<open>hide()\<close> sets and \<^verbatim>\<open>setVisible(True)\<close> clears; \<open>shown\<close> says whether the dialog window
  itself is on screen and \<open>result_code\<close> is \<^verbatim>\<open>QDialog.result()\<close>. The record also holds
  the configuration store and the trace of calls.
\<close>

record kite_installer_dialog =
  installation_thread :: installation_thread
  integration_widget_hidden :: bool
  welcome_widget_hidden :: bool
  installation_widget_hidden :: bool
  installation_widget :: kite_installation
  shown :: bool
  result_code :: dialog_code
  CONF :: conf
  trace :: "effect list"

datatype screen = Integration | Welcome | Installation

fun isHidden :: "screen \<Rightarrow> kite_installer_dialog \<Rightarrow> bool" where
  "isHidden Integration d = integration_widget_hidden d"
| "isHidden Welcome d = welcome_widget_hidden d"
| "isHidden Installation d = installation_widget_hidden d"

text \<open>
  \<^verbatim>\<open>QWidget.isVisible()\<close> of a screen: a child widget is visible when it is not hidden
  and the window it belongs to is on screen.
\<close>

definition isVisible :: "screen \<Rightarrow> kite_installer_dialog \<Rightarrow> bool" where
  "isVisible s d = (shown d \<and> \<not> isHidden s d)"

definition screens :: "screen list" where
  "screens = [Integration, Welcome, Installation]"

definition not_hidden :: "kite_installer_dialog \<Rightarrow> screen list" where
  "not_hidden d = filter (\<lambda>s. \<not> isHidden s d) screens"

definition visible :: "kite_installer_dialog \<Rightarrow> screen list" where
  "visible d = filter (\<lambda>s. isVisible s d) screens"

text \<open>\<^verbatim>\<open>hide()\<close> and \<^verbatim>\<open>setVisible(v)\<close> of a screen.\<close>

fun set_hidden :: "screen \<Rightarrow> bool \<Rightarrow> kite_installer_dialog \<Rightarrow> kite_installer_dialog" where
  "set_hidden Integration h d = d\<lparr>integration_widget_hidden := h\<rparr>"
| "set_hidden Welcome h d = d\<lparr>welcome_widget_hidden := h\<rparr>"
| "set_hidden Installation h d = d\<lparr>installation_widget_hidden := h\<rparr>"

definition widget_hide :: "screen \<Rightarrow> kite_installer_dialog \<Rightarrow> kite_installer_dialog" where
  "widget_hide s d = set_hidden s True d"

definition widget_setVisible ::
  "screen \<Rightarrow> bool \<Rightarrow> kite_installer_dialog \<Rightarrow> kite_installer_dialog" where
  "widget_setVisible s v d = set_hidden s (\<not> v) d"

text \<open>A call is appended to the trace. \<open>new_effects d d'\<close> are the calls that a method
  leading from \<open>d\<close> to \<open>d'\<close> has added.\<close>

definition call :: "effect \<Rightarrow> kite_installer_dialog \<Rightarrow> kite_installer_dialog" where
  "call c d = d\<lparr>trace := trace d @ [c]\<rparr>"

definition new_effects :: "kite_installer_dialog \<Rightarrow> kite_installer_dialog \<Rightarrow> effect list" where
  "new_effects d d' = drop (length (trace d)) (trace d')"

text \<open>The assignment \<^verbatim>\<open>self._installation_thread.cancelled = v\<close> and the call
  \<^verbatim>\<open>CONF.set(section, option, v)\<close>.\<close>

definition set_cancelled :: "bool \<Rightarrow> kite_installer_dialog \<Rightarrow> kite_installer_dialog" where
  "set_cancelled v d =
     call (Thread_set_cancelled v)
       (d\<lparr>installation_thread := (installation_thread d)\<lparr>cancelled := v\<rparr>\<rparr>)"

definition CONF_set ::
  "string \<Rightarrow> string \<Rightarrow> conf_value \<Rightarrow> kite_installer_dialog \<Rightarrow> kite_installer_dialog" where
  "CONF_set section option v d =
     call (Conf_set section option v) (d\<lparr>CONF := (CONF d)((section, option) \<mapsto> v)\<rparr>)"

text \<open>
  The methods of \<^verbatim>\<open>QDialog\<close> the class calls: \<^verbatim>\<open>show()\<close> and \<^verbatim>\<open>hide()\<close> put the window on
  and off screen; \<^verbatim>\<open>accept()\<close> and the inherited \<^verbatim>\<open>reject()\<close> take it off screen and set
  the result code. \<^verbatim>\<open>adjustSize()\<close> and \<^verbatim>\<open>center()\<close> change the geometry only, which
  the model does not hold.
\<close>

definition show_dialog :: "kite_installer_dialog \<Rightarrow> kite_installer_dialog" where
  "show_dialog d = d\<lparr>shown := True\<rparr>"

definition hide :: "kite_installer_dialog \<Rightarrow> kite_installer_dialog" where
  "hide d = call Dialog_hide (d\<lparr>shown := False\<rparr>)"

definition accept :: "kite_installer_dialog \<Rightarrow> kite_installer_dialog" where
  "accept d = call Dialog_accept (d\<lparr>shown := False, result_code := Accepted\<rparr>)"

definition QDialog_reject :: "kite_installer_dialog \<Rightarrow> kite_installer_dialog" where
  "QDialog_reject d = call Dialog_reject (d\<lparr>shown := False, result_code := Rejected\<rparr>)"

definition adjustSize :: "kite_installer_dialog \<Rightarrow> kite_installer_dialog" where
  "adjustSize d = call Dialog_adjustSize d"

definition center :: "kite_installer_dialog \<Rightarrow> kite_installer_dialog" where
  "center d = call Dialog_center d"

text \<open>
  \<^verbatim>\<open>__init__\<close>: the three screens are created, then the welcome and the installation
  screen are hidden. A new dialog is not on screen and its result code is 0
  (\<open>Rejected\<close>).
\<close>

definition init :: "module_env \<Rightarrow> installation_thread \<Rightarrow> conf \<Rightarrow> kite_installer_dialog" where
  "init I kite_installation_thread c =
     (let d0 = \<lparr>installation_thread = kite_installation_thread,
                integration_widget_hidden = False,
                welcome_widget_hidden = False,
                installation_widget_hidden = False,
                installation_widget = KiteInstallation I,
                shown = False,
                result_code = Rejected,
                CONF = c,
                trace = []\<rparr>;
          d1 = widget_hide Welcome d0
      in widget_hide Installation d1)"

definition error_message_dialog :: "module_env \<Rightarrow> message_box" where
  "error_message_dialog I =
     \<lparr>box_text = gettext I
        ''<b>An error ocurred while Kite was installing!</b><br><br>You can follow our manual install instructions to<br>integrate Kite with Spyder yourself.'',
      box_title = gettext I ''Kite install error'',
      box_buttons = [(gettext I ''Contact Kite for help'', ''https://kite.com/contact/'')]\<rparr>"

text \<open>\<^verbatim>\<open>_handle_error_msg\<close>: the message box is run (\<^verbatim>\<open>exec_()\<close> returns when the user
  has closed it), then the dialog accepts. The message itself is not used.\<close>

definition handle_error_msg ::
  "module_env \<Rightarrow> string \<Rightarrow> kite_installer_dialog \<Rightarrow> kite_installer_dialog" where
  "handle_error_msg I msg d =
     (let d1 = call (MessageBox_exec (error_message_dialog I)) d
      in accept d1)"

text \<open>Method \<^verbatim>\<open>welcome\<close> (the name is reserved in Isabelle).\<close>

definition show_welcome :: "kite_installer_dialog \<Rightarrow> kite_installer_dialog" where
  "show_welcome d =
     (let d1 = widget_hide Integration d;
          d2 = widget_hide Installation d1;
          d3 = widget_setVisible Welcome True d2;
          d4 = adjustSize d3
      in center d4)"

definition install :: "kite_installer_dialog \<Rightarrow> kite_installer_dialog" where
  "install d =
     (let d1 = widget_hide Welcome d;
          d2 = widget_hide Integration d1;
          d3 = call Thread_install d2;
          d4 = widget_setVisible Installation True d3;
          d5 = adjustSize d4
      in center d5)"

text \<open>
  \<^verbatim>\<open>cancel_install\<close>: \<open>reply\<close> is the button the question box returns and \<open>is_running\<close>
  what the thread answers to \<^verbatim>\<open>isRunning()\<close>, which is asked only after a \<open>Yes\<close>
  (Python's \<^verbatim>\<open>and\<close>). The result is the returned boolean and the new state.
\<close>

definition cancel_install ::
  "module_env \<Rightarrow> standard_button \<Rightarrow> bool \<Rightarrow> kite_installer_dialog
     \<Rightarrow> bool \<times> kite_installer_dialog" where
  "cancel_install I reply is_running d =
     (let d1 = call (MessageBox_critical ''Spyder''
                       (gettext I ''Do you really want to cancel Kite installation?'') Yes No) d
      in if reply = Yes
         then let d2 = call Thread_isRunning d1
              in if is_running
                 then let d3 = set_cancelled True d2;
                          d4 = call Thread_quit d3;
                          d5 = hide d4
                      in (True, d5)
                 else (False, d2)
         else (False, d1))"

definition finished_installation ::
  "module_env \<Rightarrow> string \<Rightarrow> kite_installer_dialog \<Rightarrow> kite_installer_dialog" where
  "finished_installation I st d = (if st = FINISHED I then accept d else d)"

definition close_installer :: "module_env \<Rightarrow> kite_installer_dialog \<Rightarrow> kite_installer_dialog" where
  "close_installer I d =
     (if status (installation_thread d) = ERRORED I
         \<or> status (installation_thread d) = FINISHED I
         \<or> status (installation_thread d) = CANCELLED I
      then accept d
      else hide d)"

definition reject :: "kite_installer_dialog \<Rightarrow> kite_installer_dialog" where
  "reject d =
     (let on_installation_widget = isVisible Installation d
      in if on_installation_widget then hide d
         else let d1 = CONF_set ''kite'' ''installation/enabled'' (BoolV False) d
              in QDialog_reject d1)"

subsection \<open>Events\<close>

text \<open>
  The signal connections of \<^verbatim>\<open>__init__\<close>: one event for each signal, handled by the
  slots connected to it, in the order of connection. The install and the dismiss button
  exist on the info and on the welcome screen and are connected alike. \<open>Show_requested\<close>
  is the owner of the dialog calling \<^verbatim>\<open>show()\<close> on it.
\<close>

datatype event =
    Download_progress int int
  | Installation_status string
  | Error_msg string
  | Learn_more_clicked
  | Install_clicked
  | Dismiss_clicked
  | Ok_clicked
  | Cancel_clicked standard_button bool
  | Show_requested

fun dispatch :: "module_env \<Rightarrow> event \<Rightarrow> kite_installer_dialog \<Rightarrow> kite_installer_dialog" where
  "dispatch I (Download_progress current_value tot) d =
     d\<lparr>installation_widget :=
         update_installation_progress current_value tot (installation_widget d)\<rparr>"
| "dispatch I (Installation_status st) d =
     finished_installation I st
       (d\<lparr>installation_widget := update_installation_status I st (installation_widget d)\<rparr>)"
| "dispatch I (Error_msg msg) d = handle_error_msg I msg d"
| "dispatch I Learn_more_clicked d = show_welcome d"
| "dispatch I Install_clicked d = install d"
| "dispatch I Dismiss_clicked d = reject d"
| "dispatch I Ok_clicked d = close_installer I d"
| "dispatch I (Cancel_clicked reply is_running) d = snd (cancel_install I reply is_running d)"
| "dispatch I Show_requested d = show_dialog d"

fun run :: "module_env \<Rightarrow> event list \<Rightarrow> kite_installer_dialog \<Rightarrow> kite_installer_dialog" where
  "run I [] d = d"
| "run I (e # es) d = run I es (dispatch I e d)"

text \<open>The writes to the configuration store among a list of calls.\<close>

fun conf_writes :: "effect list \<Rightarrow> (string \<times> string \<times> conf_value) list" where
  "conf_writes [] = []"
| "conf_writes (Conf_set section option v # es) = (section, option, v) # conf_writes es"
| "conf_writes (e # es) = conf_writes es"


subsection \<open>An example\<close>

text \<open>An environment, a thread with a given status and a dialog on screen, to run the
  methods on.\<close>

definition example_env :: module_env where
  "example_env =
     \<lparr>gettext = (\<lambda>s. s), ERRORED = ''Error'', INSTALLING = ''Installing'',
      FINISHED = ''Finished'', CANCELLED = ''Cancelled''\<rparr>"

definition example_thread :: "string \<Rightarrow> installation_thread" where
  "example_thread st = \<lparr>status = st, cancelled = False\<rparr>"

definition example_dialog :: "string \<Rightarrow> kite_installer_dialog" where
  "example_dialog st = show_dialog (init example_env (example_thread st) Map.empty)"


section \<open>Properties\<close>

subsection \<open>Shared lemmas\<close>

lemmas method_defs =
  call_def set_cancelled_def CONF_set_def widget_hide_def widget_setVisible_def
  show_dialog_def hide_def accept_def QDialog_reject_def adjustSize_def center_def
  handle_error_msg_def show_welcome_def install_def cancel_install_def
  finished_installation_def close_installer_def reject_def Let_def

lemmas example_defs =
  example_dialog_def example_env_def example_thread_def init_def KiteInstallation_def

lemma trace_dispatch: "\<exists>xs. trace (dispatch I e d) = trace d @ xs"
  by (cases e) (simp_all add: method_defs)

lemma trace_run: "\<exists>xs. trace (run I es d) = trace d @ xs"
proof (induction es arbitrary: d)
  case Nil
  show ?case by simp
next
  case (Cons e es)
  obtain xs where xs: "trace (dispatch I e d) = trace d @ xs"
    using trace_dispatch by blast
  obtain ys where ys: "trace (run I es (dispatch I e d)) = trace (dispatch I e d) @ ys"
    using Cons.IH by blast
  show ?case using xs ys by simp
qed

lemma new_effects_run_Cons:
  "new_effects d (run I (e # es) d) =
     new_effects d (dispatch I e d) @ new_effects (dispatch I e d) (run I es (dispatch I e d))"
proof -
  obtain xs where xs: "trace (dispatch I e d) = trace d @ xs"
    using trace_dispatch by blast
  obtain ys where ys: "trace (run I es (dispatch I e d)) = trace (dispatch I e d) @ ys"
    using trace_run by blast
  show ?thesis by (simp add: new_effects_def xs ys)
qed

lemma conf_writes_append: "conf_writes (xs @ ys) = conf_writes xs @ conf_writes ys"
  by (induction xs rule: conf_writes.induct) simp_all

lemma thread_dispatch:
  "installation_thread (dispatch I e d) = installation_thread d \<or>
   installation_thread (dispatch I e d) = (installation_thread d)\<lparr>cancelled := True\<rparr>"
  by (cases e) (simp_all add: method_defs)

lemma no_uncancel_dispatch:
  "Thread_set_cancelled False \<notin> set (new_effects d (dispatch I e d))"
  by (cases e) (simp_all add: method_defs new_effects_def)

lemma conf_dispatch:
  "CONF (dispatch I e d) = CONF d \<or>
   CONF (dispatch I e d) = (CONF d)((''kite'', ''installation/enabled'') \<mapsto> BoolV False)"
  by (cases e) (simp_all add: method_defs)

lemma conf_writes_dispatch:
  "conf_writes (new_effects d (dispatch I e d)) =
     (if e = Dismiss_clicked \<and> \<not> isVisible Installation d
      then [(''kite'', ''installation/enabled'', BoolV False)] else [])"
  by (cases e) (simp_all add: method_defs new_effects_def)

lemma conf_run:
  "CONF (run I es d) = CONF d \<or>
   CONF (run I es d) = (CONF d)((''kite'', ''installation/enabled'') \<mapsto> BoolV False)"
proof (induction es arbitrary: d)
  case Nil
  show ?case by simp
next
  case (Cons e es)
  from Cons.IH [of "dispatch I e d"] conf_dispatch [of I e d]
  show ?case by auto
qed

lemma conf_writes_run:
  "set (conf_writes (new_effects d (run I es d))) \<subseteq>
     {(''kite'', ''installation/enabled'', BoolV False)}"
proof (induction es arbitrary: d)
  case Nil
  show ?case by (simp add: new_effects_def)
next
  case (Cons e es)
  show ?case
    unfolding new_effects_run_Cons conf_writes_append
    using Cons.IH [of "dispatch I e d"] by (auto simp add: conf_writes_dispatch)
qed

lemma conf_follows_writes_dispatch:
  "CONF (dispatch I e d) =
     foldl (\<lambda>c (section, option, v). c((section, option) \<mapsto> v)) (CONF d)
       (conf_writes (new_effects d (dispatch I e d)))"
  by (cases e) (simp_all add: method_defs new_effects_def)

lemma conf_follows_writes_run:
  "CONF (run I es d) =
     foldl (\<lambda>c (section, option, v). c((section, option) \<mapsto> v)) (CONF d)
       (conf_writes (new_effects d (run I es d)))"
proof (induction es arbitrary: d)
  case Nil
  show ?case by (simp add: new_effects_def)
next
  case (Cons e es)
  have "CONF (run I (e # es) d) = CONF (run I es (dispatch I e d))"
    by simp
  also have "\<dots> =
      foldl (\<lambda>c (section, option, v). c((section, option) \<mapsto> v)) (CONF (dispatch I e d))
        (conf_writes (new_effects (dispatch I e d) (run I es (dispatch I e d))))"
    by (rule Cons.IH)
  also have "\<dots> =
      foldl (\<lambda>c (section, option, v). c((section, option) \<mapsto> v)) (CONF d)
        (conf_writes (new_effects d (run I (e # es) d)))"
    unfolding new_effects_run_Cons conf_writes_append foldl_append
    using conf_follows_writes_dispatch [of I e d] by simp
  finally show ?case .
qed

lemma not_hidden_dispatch:
  "not_hidden (dispatch I e d) = not_hidden d \<or>
   not_hidden (dispatch I e d) = [Welcome] \<or>
   not_hidden (dispatch I e d) = [Installation]"
  by (cases e) (simp_all add: method_defs not_hidden_def screens_def)

lemma not_hidden_run:
  "length (not_hidden d) = 1 \<Longrightarrow> length (not_hidden (run I es d)) = 1"
proof (induction es arbitrary: d)
  case Nil
  then show ?case by simp
next
  case (Cons e es)
  have "length (not_hidden (dispatch I e d)) = 1"
    using not_hidden_dispatch [of I e d] Cons.prems by auto
  then show ?case using Cons.IH by simp
qed

lemma visible_le_not_hidden: "length (visible d) \<le> length (not_hidden d)"
  by (simp add: visible_def not_hidden_def screens_def isVisible_def)

lemma not_hidden_init: "not_hidden (init I th c) = [Integration]"
  by (simp add: init_def widget_hide_def not_hidden_def screens_def Let_def)

subsection \<open>The OK button\<close>

text \<open>
  C1. For every status of the thread, \<open>close_installer\<close> accepts the dialog exactly when
  the status is one of \<open>ERRORED\<close>, \<open>FINISHED\<close> and \<open>CANCELLED\<close>: the dialog leaves the
  screen with the result code \<open>Accepted\<close>, and the one call made is \<^verbatim>\<open>accept()\<close>. For
  every other status it only hides: the one call made is \<^verbatim>\<open>hide()\<close>, the dialog leaves
  the screen and nothing else of the state changes, the result code included.
\<close>

theorem close_installer_accepts_iff_terminal:
  "(status (installation_thread d) \<in> {ERRORED I, FINISHED I, CANCELLED I} \<longrightarrow>
      close_installer I d =
        d\<lparr>shown := False, result_code := Accepted, trace := trace d @ [Dialog_accept]\<rparr>) \<and>
   (status (installation_thread d) \<notin> {ERRORED I, FINISHED I, CANCELLED I} \<longrightarrow>
      close_installer I d = d\<lparr>shown := False, trace := trace d @ [Dialog_hide]\<rparr>) \<and>
   (new_effects d (close_installer I d) = [Dialog_accept]) =
      (status (installation_thread d) \<in> {ERRORED I, FINISHED I, CANCELLED I}) \<and>
   (new_effects d (close_installer I d) = [Dialog_hide]) =
      (status (installation_thread d) \<notin> {ERRORED I, FINISHED I, CANCELLED I})"
  by (simp add: close_installer_def accept_def hide_def call_def new_effects_def)

theorem close_installer_accepts_iff_terminal_witness:
  "status (installation_thread (example_dialog ''Finished''))
      \<in> {ERRORED example_env, FINISHED example_env, CANCELLED example_env} \<and>
   result_code (close_installer example_env (example_dialog ''Finished'')) = Accepted \<and>
   trace (close_installer example_env (example_dialog ''Finished'')) = [Dialog_accept] \<and>
   status (installation_thread (example_dialog ''Installing''))
      \<notin> {ERRORED example_env, FINISHED example_env, CANCELLED example_env} \<and>
   result_code (close_installer example_env (example_dialog ''Installing'')) = Rejected \<and>
   trace (close_installer example_env (example_dialog ''Installing'')) = [Dialog_hide]"
  using close_installer_accepts_iff_terminal [of "example_dialog ''Finished''" example_env]
    close_installer_accepts_iff_terminal [of "example_dialog ''Installing''" example_env]
  by (simp add: example_defs show_dialog_def widget_hide_def Let_def)

subsection \<open>The error path\<close>

text \<open>
  C2. An error message of the thread is handled by \<open>handle_error_msg\<close>. In every state
  and for every message, it runs the message box \<open>error_message_dialog\<close>, whose one added
  button opens the contact page of Kite, and then accepts the dialog: the two calls are
  made in this order, the result code is \<open>Accepted\<close> and the dialog is off screen. Nothing
  of the state is consulted and nothing else is changed.
\<close>

theorem error_msg_shows_box_then_accepts:
  "dispatch I (Error_msg msg) d = handle_error_msg I msg d \<and>
   handle_error_msg I msg d =
     d\<lparr>shown := False, result_code := Accepted,
       trace := trace d @ [MessageBox_exec (error_message_dialog I), Dialog_accept]\<rparr> \<and>
   map snd (box_buttons (error_message_dialog I)) = [''https://kite.com/contact/''] \<and>
   new_effects d (handle_error_msg I msg d) =
     [MessageBox_exec (error_message_dialog I), Dialog_accept] \<and>
   result_code (handle_error_msg I msg d) = Accepted \<and>
   \<not> shown (handle_error_msg I msg d)"
  by (simp add: handle_error_msg_def accept_def call_def new_effects_def
      error_message_dialog_def Let_def)

subsection \<open>Dismissal\<close>

text \<open>
  C3. When the installation screen is not visible, \<open>reject\<close> stores \<open>False\<close> under
  \<open>installation/enabled\<close> of section \<open>kite\<close> and rejects the dialog (\<^verbatim>\<open>QDialog.reject\<close>:
  off screen, result code \<open>Rejected\<close>). When the installation screen is visible, it only
  hides the dialog. With at most one screen not hidden, the installation screen is not
  visible whenever the info or the welcome screen is.
\<close>

theorem reject_clears_flag_unless_installing:
  "(\<not> isVisible Installation d \<longrightarrow>
      reject d =
        d\<lparr>shown := False, result_code := Rejected,
          CONF := (CONF d)((''kite'', ''installation/enabled'') \<mapsto> BoolV False),
          trace := trace d @
            [Conf_set ''kite'' ''installation/enabled'' (BoolV False), Dialog_reject]\<rparr>) \<and>
   (isVisible Installation d \<longrightarrow>
      reject d = d\<lparr>shown := False, trace := trace d @ [Dialog_hide]\<rparr>) \<and>
   (length (not_hidden d) \<le> 1 \<and> (isVisible Integration d \<or> isVisible Welcome d) \<longrightarrow>
      \<not> isVisible Installation d)"
  by (auto simp add: reject_def hide_def QDialog_reject_def CONF_set_def call_def
      isVisible_def not_hidden_def screens_def)

theorem reject_clears_flag_unless_installing_witness:
  "length (not_hidden (example_dialog ''Installing'')) \<le> 1 \<and>
   isVisible Integration (example_dialog ''Installing'') \<and>
   \<not> isVisible Installation (example_dialog ''Installing'') \<and>
   CONF (reject (example_dialog ''Installing'')) (''kite'', ''installation/enabled'')
     = Some (BoolV False) \<and>
   result_code (reject (example_dialog ''Installing'')) = Rejected \<and>
   isVisible Installation (install (example_dialog ''Installing'')) \<and>
   CONF (reject (install (example_dialog ''Installing''))) = Map.empty \<and>
   new_effects (install (example_dialog ''Installing''))
     (reject (install (example_dialog ''Installing''))) = [Dialog_hide]"
  using reject_clears_flag_unless_installing [of "example_dialog ''Installing''"]
    reject_clears_flag_unless_installing [of "install (example_dialog ''Installing'')"]
  by (simp add: example_defs method_defs isVisible_def not_hidden_def screens_def
      new_effects_def)

subsection \<open>Starting the installation\<close>

text \<open>
  C4. After \<open>install\<close>, from any state: the info and the welcome screen are hidden, the
  installation screen is not (it is the only one, and it is visible exactly when the
  dialog is on screen), and \<^verbatim>\<open>install()\<close> of the thread has been called exactly once.
\<close>

theorem install_shows_installation_screen:
  "dispatch I Install_clicked d = install d \<and>
   isHidden Integration (install d) \<and> isHidden Welcome (install d) \<and>
   \<not> isHidden Installation (install d) \<and>
   not_hidden (install d) = [Installation] \<and>
   \<not> isVisible Integration (install d) \<and> \<not> isVisible Welcome (install d) \<and>
   isVisible Installation (install d) = shown d \<and>
   visible (install (show_dialog d)) = [Installation] \<and>
   new_effects d (install d) = [Thread_install, Dialog_adjustSize, Dialog_center] \<and>
   count_list (new_effects d (install d)) Thread_install = 1"
  by (simp add: install_def widget_hide_def widget_setVisible_def call_def adjustSize_def
      center_def show_dialog_def not_hidden_def visible_def screens_def isVisible_def
      new_effects_def Let_def)

subsection \<open>Cancelling\<close>

text \<open>
  C5. A confirmed cancellation of a running thread asks the question, asks the thread
  whether it runs, sets \<open>cancelled\<close> of the thread to \<open>True\<close>, calls \<^verbatim>\<open>quit()\<close> and hides
  the dialog, in this order, and returns \<open>True\<close>; nothing else changes. After \<^verbatim>\<open>quit()\<close>
  the only call is \<^verbatim>\<open>hide()\<close>: the thread is neither waited for nor asked again, and
  \<open>cancel_install\<close> never waits, whatever the reply.
\<close>

theorem cancel_install_sets_flag_and_quits:
  "cancel_install I Yes True d =
     (True,
      d\<lparr>installation_thread := (installation_thread d)\<lparr>cancelled := True\<rparr>,
        shown := False,
        trace := trace d @
          [MessageBox_critical ''Spyder''
             (gettext I ''Do you really want to cancel Kite installation?'') Yes No,
           Thread_isRunning, Thread_set_cancelled True, Thread_quit, Dialog_hide]\<rparr>) \<and>
   dropWhile (\<lambda>e. e \<noteq> Thread_quit) (new_effects d (snd (cancel_install I Yes True d))) =
     [Thread_quit, Dialog_hide] \<and>
   Thread_wait \<notin> set (new_effects d (snd (cancel_install I reply is_running d))) \<and>
   dispatch I (Cancel_clicked reply is_running) d = snd (cancel_install I reply is_running d)"
  by (simp add: cancel_install_def set_cancelled_def hide_def call_def new_effects_def Let_def)

text \<open>
  C9. When the reply is not \<open>Yes\<close> or the thread does not run, \<open>cancel_install\<close> returns
  \<open>False\<close> and changes nothing but the trace, to which it has added only the question
  and, after a \<open>Yes\<close>, the call of \<^verbatim>\<open>isRunning()\<close>: \<open>cancelled\<close> is as it was, \<^verbatim>\<open>quit()\<close> is
  not called and the dialog is not hidden. It returns \<open>True\<close> exactly when the reply is
  \<open>Yes\<close> and the thread runs, and then \<open>cancelled\<close> is set and \<^verbatim>\<open>quit()\<close> has been called.
\<close>

theorem cancel_install_declined_or_not_running:
  "(reply \<noteq> Yes \<or> \<not> is_running \<longrightarrow>
      fst (cancel_install I reply is_running d) = False \<and>
      (snd (cancel_install I reply is_running d))\<lparr>trace := trace d\<rparr> = d \<and>
      set (new_effects d (snd (cancel_install I reply is_running d))) \<subseteq>
        {MessageBox_critical ''Spyder''
           (gettext I ''Do you really want to cancel Kite installation?'') Yes No,
         Thread_isRunning}) \<and>
   fst (cancel_install I reply is_running d) = (reply = Yes \<and> is_running) \<and>
   (fst (cancel_install I reply is_running d) \<longrightarrow>
      cancelled (installation_thread (snd (cancel_install I reply is_running d))) \<and>
      Thread_quit \<in> set (new_effects d (snd (cancel_install I reply is_running d))))"
  by (simp add: cancel_install_def set_cancelled_def hide_def call_def new_effects_def Let_def)

theorem cancel_install_declined_or_not_running_witness:
  "fst (cancel_install example_env No True (example_dialog ''Installing'')) = False \<and>
   shown (snd (cancel_install example_env No True (example_dialog ''Installing''))) \<and>
   \<not> cancelled (installation_thread
        (snd (cancel_install example_env No True (example_dialog ''Installing'')))) \<and>
   fst (cancel_install example_env Yes False (example_dialog ''Installing'')) = False \<and>
   Thread_quit \<notin> set (trace
        (snd (cancel_install example_env Yes False (example_dialog ''Installing'')))) \<and>
   fst (cancel_install example_env Yes True (example_dialog ''Installing'')) \<and>
   cancelled (installation_thread
        (snd (cancel_install example_env Yes True (example_dialog ''Installing''))))"
  using
    cancel_install_declined_or_not_running
      [of No True example_env "example_dialog ''Installing''"]
    cancel_install_declined_or_not_running
      [of Yes False example_env "example_dialog ''Installing''"]
    cancel_install_declined_or_not_running
      [of Yes True example_env "example_dialog ''Installing''"]
  by (simp add: example_defs method_defs new_effects_def)

subsection \<open>What the dialog writes\<close>

text \<open>
  C6. After any sequence of events the \<open>status\<close> of the thread is what it was: no method
  of the dialog assigns it. The thread is as it was or differs in \<open>cancelled\<close> alone,
  which has become \<open>True\<close>; the dialog never assigns \<open>False\<close> to it.
\<close>

theorem dialog_never_writes_status:
  "status (installation_thread (run I es d)) = status (installation_thread d) \<and>
   (installation_thread (run I es d) = installation_thread d \<or>
    installation_thread (run I es d) = (installation_thread d)\<lparr>cancelled := True\<rparr>) \<and>
   Thread_set_cancelled False \<notin> set (new_effects d (run I es d))"
proof (induction es arbitrary: d)
  case Nil
  show ?case by (simp add: new_effects_def)
next
  case (Cons e es)
  have eff: "Thread_set_cancelled False \<notin> set (new_effects d (run I (e # es) d))"
    unfolding new_effects_run_Cons
    using no_uncancel_dispatch [of d I e] Cons.IH [of "dispatch I e d"] by simp
  show ?case
    using eff Cons.IH [of "dispatch I e d"] thread_dispatch [of I e d] by auto
qed

text \<open>
  C7. After any sequence of events the configuration store is as it was, or differs in
  that \<open>installation/enabled\<close> of section \<open>kite\<close> is \<open>False\<close>. Every write the dialog has
  made is this one, the store is the result of the writes made, and a single event writes
  exactly when it is a dismissal while the installation screen is not visible.
\<close>

theorem only_conf_write_disables_kite:
  "(CONF (run I es d) = CONF d \<or>
    CONF (run I es d) = (CONF d)((''kite'', ''installation/enabled'') \<mapsto> BoolV False)) \<and>
   set (conf_writes (new_effects d (run I es d))) \<subseteq>
     {(''kite'', ''installation/enabled'', BoolV False)} \<and>
   CONF (run I es d) =
     foldl (\<lambda>c (section, option, v). c((section, option) \<mapsto> v)) (CONF d)
       (conf_writes (new_effects d (run I es d))) \<and>
   conf_writes (new_effects d (dispatch I e d)) =
     (if e = Dismiss_clicked \<and> \<not> isVisible Installation d
      then [(''kite'', ''installation/enabled'', BoolV False)] else [])"
  using conf_run [of I es d] conf_writes_run [of d I es] conf_follows_writes_run [of I es d]
    conf_writes_dispatch [of d I e]
  by blast

subsection \<open>One screen at a time\<close>

text \<open>
  C8. After construction the info screen is the one screen not hidden, and the one
  visible once the dialog is shown. \<open>show_welcome\<close> and \<open>install\<close> first hide the two other
  screens, which leaves at most one screen not hidden, and then show their own, which
  is then the only one. After any sequence of events on a new dialog exactly one screen
  is not hidden and at most one is visible, and every event keeps it so.
\<close>

theorem at_most_one_screen_visible:
  "not_hidden (init I th c) = [Integration] \<and>
   visible (show_dialog (init I th c)) = [Integration] \<and>
   length (not_hidden (widget_hide Installation (widget_hide Integration d))) \<le> 1 \<and>
   not_hidden (show_welcome d) = [Welcome] \<and>
   length (not_hidden (widget_hide Integration (widget_hide Welcome d))) \<le> 1 \<and>
   not_hidden (install d) = [Installation] \<and>
   length (not_hidden (run I es (init I th c))) = 1 \<and>
   length (visible (run I es (init I th c))) \<le> 1 \<and>
   (length (not_hidden d) \<le> 1 \<longrightarrow>
      length (not_hidden (dispatch I e d)) \<le> 1 \<and> length (visible (dispatch I e d)) \<le> 1)"
proof -
  have one: "length (not_hidden (run I es (init I th c))) = 1"
    by (rule not_hidden_run) (simp add: not_hidden_init)
  have vis: "length (visible (run I es (init I th c))) \<le> 1"
    using visible_le_not_hidden [of "run I es (init I th c)"] one by simp
  have shown_init: "visible (show_dialog (init I th c)) = [Integration]"
    by (simp add: init_def widget_hide_def show_dialog_def visible_def isVisible_def
        screens_def Let_def)
  have hide_two:
    "length (not_hidden (widget_hide Installation (widget_hide Integration d))) \<le> 1"
    "length (not_hidden (widget_hide Integration (widget_hide Welcome d))) \<le> 1"
    by (simp_all add: widget_hide_def not_hidden_def screens_def)
  have own:
    "not_hidden (show_welcome d) = [Welcome]"
    "not_hidden (install d) = [Installation]"
    by (simp_all add: method_defs not_hidden_def screens_def)
  have step: "length (not_hidden d) \<le> 1 \<longrightarrow>
      length (not_hidden (dispatch I e d)) \<le> 1 \<and> length (visible (dispatch I e d)) \<le> 1"
  proof
    assume inv: "length (not_hidden d) \<le> 1"
    have "length (not_hidden (dispatch I e d)) \<le> 1"
      using not_hidden_dispatch [of I e d] inv by auto
    then show "length (not_hidden (dispatch I e d)) \<le> 1 \<and> length (visible (dispatch I e d)) \<le> 1"
      using visible_le_not_hidden [of "dispatch I e d"] by simp
  qed
  show ?thesis
    using not_hidden_init [of I th c] shown_init hide_two own one vis step by blast
qed

theorem at_most_one_screen_visible_witness:
  "length (not_hidden (example_dialog ''Installing'')) \<le> 1 \<and>
   not_hidden (dispatch example_env Install_clicked (example_dialog ''Installing''))
     = [Installation] \<and>
   visible (dispatch example_env Install_clicked (example_dialog ''Installing''))
     = [Installation] \<and>
   length (visible (dispatch example_env Install_clicked (example_dialog ''Installing''))) \<le> 1"
  using at_most_one_screen_visible
    [of example_env "example_thread ''Installing''" Map.empty "example_dialog ''Installing''"
      "[]" Install_clicked]
  by (simp add: example_defs method_defs not_hidden_def visible_def isVisible_def screens_def)

subsection \<open>The progress label\<close>

text \<open>
  C10. For every status string, \<open>update_installation_status\<close> sets the label to the
  status. When the status is \<open>INSTALLING\<close> the range of the progress bar becomes (0, 0);
  for any other status only the label changes, so the progress bar is as it was.
\<close>

theorem update_installation_status_label_and_range:
  "progress_label (update_installation_status I st w) = st \<and>
   (st = INSTALLING I \<longrightarrow>
      minimum (progress_bar (update_installation_status I st w)) = 0 \<and>
      maximum (progress_bar (update_installation_status I st w)) = 0) \<and>
   (st \<noteq> INSTALLING I \<longrightarrow> update_installation_status I st w = w\<lparr>progress_label := st\<rparr>)"
  by (simp add: update_installation_status_def setRange_def reset_def Let_def)

theorem update_installation_status_label_and_range_witness:
  "''Installing'' = INSTALLING example_env \<and>
   minimum (progress_bar
     (update_installation_status example_env ''Installing'' (KiteInstallation example_env))) = 0 \<and>
   maximum (progress_bar
     (update_installation_status example_env ''Installing'' (KiteInstallation example_env))) = 0 \<and>
   ''Downloading Kite'' \<noteq> INSTALLING example_env \<and>
   maximum (progress_bar
     (update_installation_status example_env ''Downloading Kite''
        (KiteInstallation example_env))) = 100 \<and>
   progress_label
     (update_installation_status example_env ''Downloading Kite''
        (KiteInstallation example_env)) = ''Downloading Kite''"
  using
    update_installation_status_label_and_range
      [of example_env "''Installing''" "KiteInstallation example_env"]
    update_installation_status_label_and_range
      [of example_env "''Downloading Kite''" "KiteInstallation example_env"]
  by (simp add: example_env_def KiteInstallation_def QProgressBar_def)

end
